theory Spec2Isabelle
  imports Complex_Main
begin

section \<open>Python values and exceptions\<close>

text \<open>
  The backend \<^verbatim>\<open>app/backend/app.py\<close> handles parsed JSON: the request body, the
  context, the auth claims, the events of the approach. A parsed JSON value is one of
  Python's \<^verbatim>\<open>None\<close>, \<^verbatim>\<open>bool\<close>, \<^verbatim>\<open>int\<close>, \<^verbatim>\<open>float\<close>, \<^verbatim>\<open>str\<close>, \<^verbatim>\<open>list\<close> and
  \<^verbatim>\<open>dict\<close>. A \<^verbatim>\<open>dict\<close> keeps insertion order, so it is an association list (with
  distinct keys, as a dict has).
\<close>

datatype json =
    JNull
  | JBool bool
  | JInt int
  | JFloat real
  | JStr string
  | JArr "json list"
  | JObj "(string \<times> json) list"

type_synonym dict = "(string \<times> json) list"

text \<open>
  The exceptions are the instances of Python's \<^verbatim>\<open>Exception\<close> that the module meets:
  the three its own operations raise, and \<open>Failure s\<close> for any other instance \<open>e\<close> of
  \<^verbatim>\<open>Exception\<close> raised by a collaborator, with \<open>s\<close> the text \<^verbatim>\<open>str(e)\<close>.
  \<^verbatim>\<open>str\<close> of a \<^verbatim>\<open>KeyError\<close> is the \<^verbatim>\<open>repr\<close> of its key; the keys of this module
  hold no quote and no escape, so the \<^verbatim>\<open>repr\<close> is the key between single quotes.
\<close>

datatype exn =
    KeyError string
  | AttributeError string
  | TypeError string
  | Failure string

definition quoted :: "string \<Rightarrow> string" where
  "quoted s = [CHR 0x27] @ s @ [CHR 0x27]"

fun str_exn :: "exn \<Rightarrow> string" where
  "str_exn (KeyError k) = quoted k"
| "str_exn (AttributeError m) = m"
| "str_exn (TypeError m) = m"
| "str_exn (Failure m) = m"

fun type_name :: "json \<Rightarrow> string" where
  "type_name JNull = ''NoneType''"
| "type_name (JBool _) = ''bool''"
| "type_name (JInt _) = ''int''"
| "type_name (JFloat _) = ''float''"
| "type_name (JStr _) = ''str''"
| "type_name (JArr _) = ''list''"
| "type_name (JObj _) = ''dict''"

text \<open>\<^verbatim>\<open>d.get(k, default)\<close>, \<^verbatim>\<open>d[k]\<close> and \<^verbatim>\<open>d[k] = v\<close> on a dict.\<close>

definition dict_get :: "dict \<Rightarrow> string \<Rightarrow> json \<Rightarrow> json" where
  "dict_get d k dflt = (case map_of d k of None \<Rightarrow> dflt | Some v \<Rightarrow> v)"

definition dict_getitem :: "dict \<Rightarrow> string \<Rightarrow> exn + json" where
  "dict_getitem d k = (case map_of d k of None \<Rightarrow> Inl (KeyError k) | Some v \<Rightarrow> Inr v)"

fun dict_setitem :: "dict \<Rightarrow> string \<Rightarrow> json \<Rightarrow> dict" where
  "dict_setitem [] k v = [(k, v)]"
| "dict_setitem ((k', v') # d) k v =
     (if k' = k then (k, v) # d else (k', v') # dict_setitem d k v)"

text \<open>
  The same three operations on any parsed value, with a string key: only a dict has
  \<^verbatim>\<open>get\<close>, and the others raise on a subscript with a string. The wording of these
  messages varies with the Python version; no result below depends on it.
\<close>

definition py_get :: "json \<Rightarrow> string \<Rightarrow> json \<Rightarrow> exn + json" where
  "py_get x k dflt =
     (case x of
        JObj d \<Rightarrow> Inr (dict_get d k dflt)
      | _ \<Rightarrow> Inl (AttributeError
                (quoted (type_name x) @ '' object has no attribute '' @ quoted ''get'')))"

definition py_getitem :: "json \<Rightarrow> string \<Rightarrow> exn + json" where
  "py_getitem x k =
     (case x of
        JObj d \<Rightarrow> dict_getitem d k
      | JArr _ \<Rightarrow> Inl (TypeError ''list indices must be integers or slices, not str'')
      | JStr _ \<Rightarrow> Inl (TypeError ''string indices must be integers'')
      | _ \<Rightarrow> Inl (TypeError (quoted (type_name x) @ '' object is not subscriptable'')))"

definition py_setitem :: "json \<Rightarrow> string \<Rightarrow> json \<Rightarrow> exn + json" where
  "py_setitem x k v =
     (case x of
        JObj d \<Rightarrow> Inr (JObj (dict_setitem d k v))
      | JArr _ \<Rightarrow> Inl (TypeError ''list indices must be integers or slices, not str'')
      | _ \<Rightarrow> Inl (TypeError
                (quoted (type_name x) @ '' object does not support item assignment'')))"

section \<open>Collaborators, requests and responses\<close>

text \<open>
  The objects that \<^verbatim>\<open>setup_clients\<close> builds are modelled by the arguments of their
  constructors. Their classes (\<^verbatim>\<open>AuthenticationHelper\<close>, \<^verbatim>\<open>ChatReadRetrieveReadApproach\<close>,
  \<^verbatim>\<open>DefaultAzureCredential\<close>) are imported by the module and not part of it, so what
  their methods return is a parameter of the model: the record \<open>ext\<close> below.
\<close>

record auth_helper =
  use_authentication :: bool
  server_app_id :: "string option"
  server_app_secret :: "string option"
  client_app_id :: "string option"
  tenant_id :: "string option"
  token_cache_path :: "string option"

record approach =
  openai_host :: string
  azure_openai_endpoint :: "string option"
  azure_openai_api_key :: "string option"
  azure_openai_chatgpt_deployment :: "string option"
  openai_chatgpt_model :: "string option"
  sql_connection_string :: "string option"

record credential =
  exclude_shared_token_cache_credential :: bool

text \<open>An access token as the credential returns it: the bearer string and its expiry,
  in whole seconds since the epoch.\<close>

record access_token =
  token :: string
  expires_on :: int

text \<open>
  An asynchronous generator, as far as \<^verbatim>\<open>async for\<close> sees it: at each step it yields
  a value and goes on, or is exhausted, or raises. A generator need not end, so the type
  is a codatatype. \<open>chunks n g\<close> are the first \<open>n\<close> values of \<open>g\<close> (fewer when \<open>g\<close>
  stops before), and \<open>agen_of_list\<close> is the generator that yields the values of a list
  and is then exhausted.
\<close>

codatatype 'a agen =
    Exhausted
  | Yield 'a "'a agen"
  | Throws exn

fun chunks :: "nat \<Rightarrow> 'a agen \<Rightarrow> 'a list" where
  "chunks 0 g = []"
| "chunks (Suc n) g = (case g of Yield x g' \<Rightarrow> x # chunks n g' | _ \<Rightarrow> [])"

primrec agen_of_list :: "'a list \<Rightarrow> 'a agen" where
  "agen_of_list [] = Exhausted"
| "agen_of_list (x # xs) = Yield x (agen_of_list xs)"

text \<open>What \<^verbatim>\<open>approach.run\<close> returns: a dict, or an asynchronous generator of dicts.\<close>

datatype run_result =
    Single dict
  | Sequence "dict agen"

type_synonym headers = "(string \<times> string) list"

datatype body =
    JsonBody json
  | TextBody string
  | StreamBody "string agen"

datatype timeout_setting = DefaultTimeout | NoTimeout

record response =
  status :: nat
  body :: body
  timeout :: timeout_setting

text \<open>
  The request as the handler reads it: \<^verbatim>\<open>request.is_json\<close>, what awaiting
  \<^verbatim>\<open>request.get_json()\<close> gives (the parsed body, or the exception of a body that does
  not parse), and \<^verbatim>\<open>request.headers\<close>.
\<close>

record request =
  is_json :: bool
  get_json :: "exn + json"
  headers :: headers

record ext =
  get_auth_claims_if_enabled :: "auth_helper \<Rightarrow> headers \<Rightarrow> exn + json"
  get_auth_setup_for_client :: "auth_helper \<Rightarrow> exn + json"
  run :: "approach \<Rightarrow> json \<Rightarrow> json \<Rightarrow> json \<Rightarrow> json \<Rightarrow> exn + run_result"
  get_token :: "credential \<Rightarrow> string \<Rightarrow> exn + access_token"
  json_dumps :: "json \<Rightarrow> string"
  send_static_file :: "string \<Rightarrow> exn + response"
  send_from_directory :: "string \<Rightarrow> string \<Rightarrow> exn + response"
  backend_dir :: string

text \<open>
  \<^verbatim>\<open>current_app.config\<close>, at the four keys the module uses; a key that was never
  stored is \<open>None\<close>, and reading it raises \<^verbatim>\<open>KeyError\<close>.
\<close>

definition CONFIG_OPENAI_TOKEN :: string where "CONFIG_OPENAI_TOKEN = ''openai_token''"
definition CONFIG_CREDENTIAL :: string where "CONFIG_CREDENTIAL = ''azure_credential''"
definition CONFIG_CHAT_APPROACH :: string where "CONFIG_CHAT_APPROACH = ''chat_approach''"
definition CONFIG_AUTH_CLIENT :: string where "CONFIG_AUTH_CLIENT = ''auth_client''"

record config =
  openai_token :: "access_token option"
  azure_credential :: "credential option"
  chat_approach :: "approach option"
  auth_client :: "auth_helper option"

text \<open>
  What a run of a handler leaves behind, in order: the calls to the collaborators and
  the records written to the log.
\<close>

datatype call =
    CallAuthClaims auth_helper headers
  | CallAuthSetup auth_helper
  | CallRun approach json json json json
  | CallGetToken credential string
  | CallSendFile string
  | CallSendFromDirectory string string
  | LogException string exn

text \<open>\<^verbatim>\<open>jsonify(x)\<close> is a response of status 200 whose body is the document \<open>x\<close>; a view
  that returns \<^verbatim>\<open>(response, code)\<close> sets the status; \<^verbatim>\<open>make_response\<close> of an
  asynchronous generator is a response of status 200 that streams it.\<close>

definition jsonify :: "json \<Rightarrow> response" where
  "jsonify x = \<lparr>status = 200, body = JsonBody x, timeout = DefaultTimeout\<rparr>"

definition with_status :: "response \<Rightarrow> nat \<Rightarrow> response" where
  "with_status r code = r\<lparr>status := code\<rparr>"

definition make_response :: "string agen \<Rightarrow> response" where
  "make_response g = \<lparr>status = 200, body = StreamBody g, timeout = DefaultTimeout\<rparr>"

section \<open>The chat endpoint\<close>

text \<open>
  \<^verbatim>\<open>
  async def format_as_ndjson(r):
      async for event in r:
          yield json.dumps(event, ensure_ascii=False) + "\n"
  \<close>
\<close>

primcorec format_as_ndjson :: "ext \<Rightarrow> dict agen \<Rightarrow> string agen" where
  "format_as_ndjson X r =
     (case r of
        Exhausted \<Rightarrow> Exhausted
      | Yield event r' \<Rightarrow>
          Yield (json_dumps X (JObj event) @ [CHR 0x0A]) (format_as_ndjson X r')
      | Throws e \<Rightarrow> Throws e)"

text \<open>The text a client has received with the first \<open>n\<close> chunks of a streamed body.\<close>

definition body_text :: "nat \<Rightarrow> string agen \<Rightarrow> string" where
  "body_text n g = concat (chunks n g)"

text \<open>
  The body of the \<^verbatim>\<open>try\<close> statement of \<^verbatim>\<open>chat\<close> (lines 84 to 96), with the request's
  JSON and the context as the lines before it left them. Python evaluates
  \<^verbatim>\<open>request_json["messages"]\<close> and the keyword arguments before it calls \<^verbatim>\<open>run\<close>.
  When the context is the dict stored in the request, line 82 has changed that dict
  inside \<^verbatim>\<open>request_json\<close> too; the block reads \<^verbatim>\<open>request_json\<close> at the keys
  \<^verbatim>\<open>messages\<close>, \<^verbatim>\<open>stream\<close> and \<^verbatim>\<open>session_state\<close> only, which that store leaves
  as they were.
\<close>

definition chat_try :: "ext \<Rightarrow> config \<Rightarrow> json \<Rightarrow> json \<Rightarrow> (exn + response) \<times> call list" where
  "chat_try X cfg request_json ctx =
     (case chat_approach cfg of
        None \<Rightarrow> (Inl (KeyError CONFIG_CHAT_APPROACH), [])
      | Some approach \<Rightarrow>
     (case py_getitem request_json ''messages'' of
        Inl e \<Rightarrow> (Inl e, [])
      | Inr messages \<Rightarrow>
     (case py_get request_json ''stream'' (JBool False) of
        Inl e \<Rightarrow> (Inl e, [])
      | Inr stream \<Rightarrow>
     (case py_get request_json ''session_state'' JNull of
        Inl e \<Rightarrow> (Inl e, [])
      | Inr session_state \<Rightarrow>
     (case run X approach messages stream ctx session_state of
        Inl e \<Rightarrow> (Inl e, [CallRun approach messages stream ctx session_state])
      | Inr (Single result) \<Rightarrow>
          (Inr (jsonify (JObj result)), [CallRun approach messages stream ctx session_state])
      | Inr (Sequence result) \<Rightarrow>
          (Inr ((make_response (format_as_ndjson X result))\<lparr>timeout := NoTimeout\<rparr>),
           [CallRun approach messages stream ctx session_state]))))))"

text \<open>
  The handler of \<^verbatim>\<open>POST /chat\<close> (lines 75 to 99). Its result is the response it
  returns, or the exception that leaves it, together with its calls. Line 82 awaits the
  auth helper first and stores into the context second; the \<^verbatim>\<open>try\<close> starts after
  both.
\<close>

definition chat :: "ext \<Rightarrow> config \<Rightarrow> request \<Rightarrow> (exn + response) \<times> call list" where
  "chat X cfg req =
     (if \<not> is_json req then
        (Inr (with_status (jsonify (JObj [(''error'', JStr ''request must be json'')])) 415), [])
      else
     (case get_json req of
        Inl e \<Rightarrow> (Inl e, [])
      | Inr request_json \<Rightarrow>
     (case py_get request_json ''context'' (JObj []) of
        Inl e \<Rightarrow> (Inl e, [])
      | Inr ctx \<Rightarrow>
     (case auth_client cfg of
        None \<Rightarrow> (Inl (KeyError CONFIG_AUTH_CLIENT), [])
      | Some auth_helper \<Rightarrow>
     (case get_auth_claims_if_enabled X auth_helper (headers req) of
        Inl e \<Rightarrow> (Inl e, [CallAuthClaims auth_helper (headers req)])
      | Inr claims \<Rightarrow>
     (case py_setitem ctx ''auth_claims'' claims of
        Inl e \<Rightarrow> (Inl e, [CallAuthClaims auth_helper (headers req)])
      | Inr ctx' \<Rightarrow>
     (case chat_try X cfg request_json ctx' of
        (Inr resp, calls) \<Rightarrow> (Inr resp, CallAuthClaims auth_helper (headers req) # calls)
      | (Inl e, calls) \<Rightarrow>
          (Inr (with_status (jsonify (JObj [(''error'', JStr (str_exn e))])) 500),
           CallAuthClaims auth_helper (headers req) # calls
             @ [LogException ''Exception in /chat'' e]))))))))"

section \<open>The token gate\<close>

text \<open>
  The state the gate reads and writes: the globals \<^verbatim>\<open>openai.api_type\<close> and
  \<^verbatim>\<open>openai.api_key\<close>, and \<^verbatim>\<open>current_app.config\<close>.
\<close>

record app =
  api_type :: string
  api_key :: "string option"
  app_config :: config

definition TOKEN_SCOPE :: string where
  "TOKEN_SCOPE = ''https://cognitiveservices.azure.com/.default''"

text \<open>
  \<^verbatim>\<open>ensure_openai_token\<close> (lines 109 to 119). \<open>now\<close> is what \<^verbatim>\<open>time.time()\<close> returns
  at line 114, a number of seconds; \<^verbatim>\<open>expires_on\<close> is an integer. The clock's float
  is taken as the real number it denotes: for the epoch seconds between \<open>2 ^ 30\<close> and
  \<open>2 ^ 31 - 60\<close> a double has a spacing of \<open>2 ^ -22\<close>, so adding 60 is exact, and
  Python compares an integer with a float exactly.
\<close>

definition ensure_openai_token :: "ext \<Rightarrow> real \<Rightarrow> app \<Rightarrow> (exn + unit) \<times> app \<times> call list" where
  "ensure_openai_token X now s =
     (if api_type s \<noteq> ''azure_ad'' then (Inr (), s, [])
      else
     (case openai_token (app_config s) of
        None \<Rightarrow> (Inl (KeyError CONFIG_OPENAI_TOKEN), s, [])
      | Some stored \<Rightarrow>
          if real_of_int (expires_on stored) < now + 60 then
            (case azure_credential (app_config s) of
               None \<Rightarrow> (Inl (KeyError CONFIG_CREDENTIAL), s, [])
             | Some cred \<Rightarrow>
            (case get_token X cred TOKEN_SCOPE of
               Inl e \<Rightarrow> (Inl e, s, [CallGetToken cred TOKEN_SCOPE])
             | Inr fresh \<Rightarrow>
                 (Inr (),
                  s\<lparr>app_config := (app_config s)\<lparr>openai_token := Some fresh\<rparr>,
                    api_key := Some (token fresh)\<rparr>,
                  [CallGetToken cred TOKEN_SCOPE])))
          else (Inr (), s, [])))"

section \<open>Startup\<close>

text \<open>The process environment, \<^verbatim>\<open>os.getenv(k)\<close> and \<^verbatim>\<open>os.getenv(k, default)\<close>.\<close>

type_synonym environ = "string \<rightharpoonup> string"

definition getenv :: "environ \<Rightarrow> string \<Rightarrow> string option" where
  "getenv env k = env k"

definition getenv_default :: "environ \<Rightarrow> string \<Rightarrow> string \<Rightarrow> string" where
  "getenv_default env k dflt = (case env k of None \<Rightarrow> dflt | Some v \<Rightarrow> v)"

text \<open>
  \<^verbatim>\<open>str.lower()\<close>. A \<open>string\<close> holds bytes, and the letters \<open>A\<close> to \<open>Z\<close> are the
  bytes 65 to 90. Python also lowers letters beyond ASCII, but none of them to one of
  the letters of \<^verbatim>\<open>false\<close>, so a comparison of the result with \<^verbatim>\<open>"false"\<close> is the
  same in the model.
\<close>

definition lower_char :: "char \<Rightarrow> char" where
  "lower_char c =
     (if 65 \<le> (of_char c :: nat) \<and> (of_char c :: nat) \<le> 90
      then char_of ((of_char c :: nat) + 32) else c)"

definition lower :: "string \<Rightarrow> string" where
  "lower s = map lower_char s"

text \<open>
  \<^verbatim>\<open>setup_clients\<close> (lines 122 to 179): it reads the environment, builds the
  credential, the auth helper and the chat approach, and stores the three in the
  configuration. It stores nothing under \<^verbatim>\<open>CONFIG_OPENAI_TOKEN\<close>. The variables it
  reads and passes nowhere (\<^verbatim>\<open>OPENAI_EMB_MODEL\<close>, \<^verbatim>\<open>AZURE_OPENAI_EMB_DEPLOYMENT\<close>,
  \<^verbatim>\<open>OPENAI_API_KEY\<close>, \<^verbatim>\<open>OPENAI_ORGANIZATION\<close>) are left out.
\<close>

definition AZURE_USE_AUTHENTICATION :: "environ \<Rightarrow> bool" where
  "AZURE_USE_AUTHENTICATION env =
     (lower (getenv_default env ''AZURE_USE_AUTHENTICATION'' []) = ''false'')"

definition setup_clients :: "environ \<Rightarrow> config \<Rightarrow> config" where
  "setup_clients env cfg =
     (let azure_credential' = \<lparr>exclude_shared_token_cache_credential = True\<rparr>;
          auth_helper = \<lparr>use_authentication = AZURE_USE_AUTHENTICATION env,
                         server_app_id = getenv env ''AZURE_SERVER_APP_ID'',
                         server_app_secret = getenv env ''AZURE_SERVER_APP_SECRET'',
                         client_app_id = getenv env ''AZURE_CLIENT_APP_ID'',
                         tenant_id = getenv env ''AZURE_TENANT_ID'',
                         token_cache_path = getenv env ''TOKEN_CACHE_PATH''\<rparr>
      in cfg\<lparr>azure_credential := Some azure_credential',
             auth_client := Some auth_helper,
             chat_approach := Some
               \<lparr>openai_host = getenv_default env ''OPENAI_HOST'' ''azure'',
                azure_openai_endpoint = getenv env ''AZURE_OPENAI_ENDPOINT'',
                azure_openai_api_key = getenv env ''AZURE_OPENAI_API_KEY'',
                azure_openai_chatgpt_deployment = getenv env ''AZURE_OPENAI_CHATGPT_DEPLOYMENT'',
                openai_chatgpt_model = getenv env ''AZURE_OPENAI_CHATGPT_MODEL'',
                sql_connection_string = getenv env ''DATABASE_CONNECTION_STRING''\<rparr>\<rparr>)"

text \<open>The configuration before startup: none of the four keys is stored.\<close>

definition empty_config :: config where
  "empty_config =
     \<lparr>openai_token = None, azure_credential = None, chat_approach = None, auth_client = None\<rparr>"

section \<open>The routes of the blueprint\<close>

definition index :: "ext \<Rightarrow> (exn + response) \<times> call list" where
  "index X = (send_static_file X ''index.html'', [CallSendFile ''index.html''])"

definition basepath :: "environ \<Rightarrow> string" where
  "basepath env = getenv_default env ''DATA_CHAT_BASE_PATH'' ''/''"

definition get_basepath :: "environ \<Rightarrow> (exn + response) \<times> call list" where
  "get_basepath env = (Inr (jsonify (JObj [(''basepath'', JStr (basepath env))])), [])"

definition redirect :: "(exn + response) \<times> call list" where
  "redirect = (Inr \<lparr>status = 200, body = TextBody [], timeout = DefaultTimeout\<rparr>, [])"

definition favicon :: "ext \<Rightarrow> (exn + response) \<times> call list" where
  "favicon X = (send_static_file X ''favicon.ico'', [CallSendFile ''favicon.ico''])"

definition assets :: "ext \<Rightarrow> string \<Rightarrow> (exn + response) \<times> call list" where
  "assets X path =
     (send_from_directory X (backend_dir X @ ''/static/assets'') path,
      [CallSendFromDirectory (backend_dir X @ ''/static/assets'') path])"

definition auth_setup :: "ext \<Rightarrow> config \<Rightarrow> (exn + response) \<times> call list" where
  "auth_setup X cfg =
     (case auth_client cfg of
        None \<Rightarrow> (Inl (KeyError CONFIG_AUTH_CLIENT), [])
      | Some auth_helper \<Rightarrow>
     (case get_auth_setup_for_client X auth_helper of
        Inl e \<Rightarrow> (Inl e, [CallAuthSetup auth_helper])
      | Inr setup \<Rightarrow> (Inr (jsonify setup), [CallAuthSetup auth_helper])))"

text \<open>
  What the module registers on its blueprint (line 40): the seven routes, each
  \<^verbatim>\<open>@bp.route\<close> with its rule, the \<^verbatim>\<open>methods\<close> argument where the source gives one, and
  the view function's name (lines 44, 49, 56, 61, 66, 75 and 103);
  \<^verbatim>\<open>ensure_openai_token\<close> with \<^verbatim>\<open>@bp.before_request\<close> (line 109); and
  \<^verbatim>\<open>setup_clients\<close> with \<^verbatim>\<open>@bp.before_app_serving\<close> (line 122). The decorators record
  the function in the blueprint and run nothing. The framework, which is not part of
  the repository, runs the before-request functions of a blueprint ahead of the view
  function of each route of that blueprint; no definition here stands for it.
\<close>

record blueprint =
  bp_name :: string
  static_folder :: string
  url_rules :: "(string \<times> string list option \<times> string) list"
  before_request_funcs :: "(ext \<Rightarrow> real \<Rightarrow> app \<Rightarrow> (exn + unit) \<times> app \<times> call list) list"
  before_app_serving_funcs :: "(environ \<Rightarrow> config \<Rightarrow> config) list"

definition bp :: blueprint where
  "bp =
     \<lparr>bp_name = ''routes'',
      static_folder = ''static'',
      url_rules =
        [(''/'', None, ''index''),
         (''/basepath'', None, ''get_basepath''),
         (''/redirect'', None, ''redirect''),
         (''/favicon.ico'', None, ''favicon''),
         (''/assets/<path:path>'', None, ''assets''),
         (''/chat'', Some [''POST''], ''chat''),
         (''/auth_setup'', Some [''GET''], ''auth_setup'')],
      before_request_funcs = [ensure_openai_token],
      before_app_serving_funcs = [setup_clients]\<rparr>"

section \<open>Example inputs\<close>

text \<open>
  Concrete collaborators and requests, on which the results below are run. The
  collaborators of \<open>example_ext\<close> answer every call with the given outcome;
  \<open>example_dumps\<close> stands for \<^verbatim>\<open>json.dumps\<close> on an object of one string field, which
  is all the example events are.
\<close>

fun example_dumps :: "json \<Rightarrow> string" where
  "example_dumps (JObj [(k, JStr v)]) =
     ''{'' @ [CHR 0x22] @ k @ [CHR 0x22] @ '': '' @ [CHR 0x22] @ v @ [CHR 0x22] @ ''}''"
| "example_dumps x = ''null''"

definition example_ext :: "(exn + json) \<Rightarrow> (exn + run_result) \<Rightarrow> (exn + access_token) \<Rightarrow> ext" where
  "example_ext claims result fetched =
     \<lparr>get_auth_claims_if_enabled = (\<lambda>helper hs. claims),
      get_auth_setup_for_client = (\<lambda>helper. Inr (JObj [(''useLogin'', JBool False)])),
      run = (\<lambda>approach messages stream ctx session_state. result),
      get_token = (\<lambda>cred scope. fetched),
      json_dumps = example_dumps,
      send_static_file =
        (\<lambda>name. Inr \<lparr>status = 200, body = TextBody name, timeout = DefaultTimeout\<rparr>),
      send_from_directory =
        (\<lambda>dir name. Inr \<lparr>status = 200, body = TextBody (dir @ ''/'' @ name),
                          timeout = DefaultTimeout\<rparr>),
      backend_dir = ''/app/backend''\<rparr>"

definition example_messages :: json where
  "example_messages = JArr [JObj [(''role'', JStr ''user''), (''content'', JStr ''hi'')]]"

definition example_headers :: headers where
  "example_headers = [(''Authorization'', ''Bearer abc'')]"

definition example_request :: "json \<Rightarrow> request" where
  "example_request payload =
     \<lparr>is_json = True, get_json = Inr payload, headers = example_headers\<rparr>"

definition example_config :: config where
  "example_config = setup_clients Map.empty empty_config"

text \<open>The three objects that \<open>example_config\<close> holds (see \<open>example_config_simps\<close>).\<close>

definition example_helper :: auth_helper where
  "example_helper =
     \<lparr>use_authentication = False, server_app_id = None, server_app_secret = None,
      client_app_id = None, tenant_id = None, token_cache_path = None\<rparr>"

definition example_approach :: approach where
  "example_approach =
     \<lparr>openai_host = ''azure'', azure_openai_endpoint = None, azure_openai_api_key = None,
      azure_openai_chatgpt_deployment = None, openai_chatgpt_model = None,
      sql_connection_string = None\<rparr>"

definition example_credential :: credential where
  "example_credential = \<lparr>exclude_shared_token_cache_credential = True\<rparr>"

definition example_app :: "access_token option \<Rightarrow> app" where
  "example_app stored = \<lparr>api_type = ''azure_ad'', api_key = None,
     app_config = example_config\<lparr>openai_token := stored\<rparr>\<rparr>"

definition example_events :: "dict list" where
  "example_events = [[(''delta'', JStr ''he'')], [(''delta'', JStr ''llo'')]]"

definition example_payload :: "bool \<Rightarrow> json" where
  "example_payload streaming =
     JObj [(''messages'', example_messages), (''stream'', JBool streaming)]"

section \<open>Auxiliary facts\<close>

lemma example_config_simps:
  "auth_client example_config = Some example_helper"
  "chat_approach example_config = Some example_approach"
  "azure_credential example_config = Some example_credential"
  "openai_token example_config = None"
  by (simp_all add: example_config_def setup_clients_def empty_config_def getenv_def
      getenv_default_def AZURE_USE_AUTHENTICATION_def lower_def example_helper_def
      example_approach_def example_credential_def)

lemma example_ext_simps:
  "get_auth_claims_if_enabled (example_ext claims result fetched) helper hs = claims"
  "run (example_ext claims result fetched) a m st c ss = result"
  "get_token (example_ext claims result fetched) cred scope = fetched"
  "json_dumps (example_ext claims result fetched) = example_dumps"
  by (simp_all add: example_ext_def)

lemma example_request_simps:
  "is_json (example_request payload)"
  "get_json (example_request payload) = Inr payload"
  "headers (example_request payload) = example_headers"
  by (simp_all add: example_request_def)

lemma format_as_ndjson_simps:
  "format_as_ndjson X Exhausted = Exhausted"
  "format_as_ndjson X (Yield event r) =
     Yield (json_dumps X (JObj event) @ [CHR 0x0A]) (format_as_ndjson X r)"
  "format_as_ndjson X (Throws e) = Throws e"
  by (simp_all add: format_as_ndjson.code)

lemma format_as_ndjson_map:
  "format_as_ndjson X r = map_agen (\<lambda>event. json_dumps X (JObj event) @ [CHR 0x0A]) r"
  by (coinduction arbitrary: r) (auto simp add: format_as_ndjson_simps split: agen.splits)

lemma chunks_format_as_ndjson:
  "chunks n (format_as_ndjson X r) =
     map (\<lambda>event. json_dumps X (JObj event) @ [CHR 0x0A]) (chunks n r)"
  by (induction n arbitrary: r) (auto simp add: format_as_ndjson_simps split: agen.splits)

lemma format_as_ndjson_of_list:
  "format_as_ndjson X (agen_of_list events) =
     agen_of_list (map (\<lambda>event. json_dumps X (JObj event) @ [CHR 0x0A]) events)"
  by (induction events) (simp_all add: format_as_ndjson_simps)

lemma chunks_agen_of_list: "chunks (length xs) (agen_of_list xs) = xs"
  by (induction xs) simp_all

lemma chat_try_status:
  assumes "chat_try X cfg request_json ctx = (Inr resp, calls)"
  shows "status resp = 200"
  using assms
  by (auto simp add: chat_try_def jsonify_def make_response_def
      split: option.splits sum.splits run_result.splits)

lemma chat_json_status:
  assumes "is_json req" and "fst (chat X cfg req) = Inr resp"
  shows "status resp = 200 \<or> status resp = 500"
proof -
  have "status resp = 200 \<or> status resp = 500"
    if "chat_try X cfg rj ctx = (out, calls)"
      and "(case (out, calls) of
              (Inr resp', cs) \<Rightarrow> Inr resp'
            | (Inl e, cs) \<Rightarrow>
                Inr (with_status (jsonify (JObj [(''error'', JStr (str_exn e))])) 500))
           = (Inr resp :: exn + response)"
    for rj ctx out calls
    using that chat_try_status [of X cfg rj ctx _ calls]
    by (cases out) (auto simp add: with_status_def jsonify_def)
  then show ?thesis
    using assms
    by (auto simp add: chat_def split: sum.splits option.splits prod.splits)
qed

section \<open>The streaming relay and the single document\<close>

text \<open>
  Claim C1. A JSON \<^verbatim>\<open>POST /chat\<close> that passes the steps before the approach (the body
  is an object with \<^verbatim>\<open>messages\<close>, the context is absent or an object, the auth helper
  is configured and returns) and whose \<^verbatim>\<open>run\<close> returns a generator \<open>r\<close> is answered
  with status 200 and the stream \<open>format_as_ndjson r\<close>. That stream is \<open>r\<close> with every
  event replaced by \<^verbatim>\<open>json.dumps(event) + "\n"\<close>: it yields where \<open>r\<close> yields, ends
  where \<open>r\<close> ends and raises where \<open>r\<close> raises, so no event is dropped, repeated or
  moved, and none stops the stream. Hence the first \<open>n\<close> chunks are the lines of the
  first \<open>n\<close> events, and when \<open>r\<close> yields the events of a list and ends, the whole body
  is the concatenation of their lines. The handler does not look at the \<^verbatim>\<open>stream\<close>
  flag, so this holds for every value of it, \<^verbatim>\<open>true\<close> among them.
\<close>

theorem chat_stream_is_ndjson_of_events:
  assumes "is_json req"
    and "get_json req = Inr (JObj d)"
    and "map_of d ''messages'' = Some messages"
    and "dict_get d ''context'' (JObj []) = JObj c"
    and "auth_client cfg = Some helper"
    and "get_auth_claims_if_enabled X helper (headers req) = Inr claims"
    and "chat_approach cfg = Some a"
    and "run X a messages (dict_get d ''stream'' (JBool False))
           (JObj (dict_setitem c ''auth_claims'' claims))
           (dict_get d ''session_state'' JNull) = Inr (Sequence r)"
  shows "fst (chat X cfg req) =
           Inr \<lparr>status = 200, body = StreamBody (format_as_ndjson X r), timeout = NoTimeout\<rparr>
         \<and> format_as_ndjson X r =
             map_agen (\<lambda>event. json_dumps X (JObj event) @ [CHR 0x0A]) r
         \<and> (\<forall>n. body_text n (format_as_ndjson X r) =
               concat (map (\<lambda>event. json_dumps X (JObj event) @ [CHR 0x0A]) (chunks n r)))
         \<and> (\<forall>events. r = agen_of_list events \<longrightarrow>
               format_as_ndjson X r =
                 agen_of_list (map (\<lambda>event. json_dumps X (JObj event) @ [CHR 0x0A]) events)
               \<and> body_text (length events) (format_as_ndjson X r) =
                 concat (map (\<lambda>event. json_dumps X (JObj event) @ [CHR 0x0A]) events))"
proof -
  let ?line = "\<lambda>event. json_dumps X (JObj event) @ [CHR 0x0A]"
  have response: "fst (chat X cfg req) =
      Inr \<lparr>status = 200, body = StreamBody (format_as_ndjson X r), timeout = NoTimeout\<rparr>"
    using assms
    by (simp add: chat_def chat_try_def py_get_def py_getitem_def py_setitem_def
        dict_getitem_def make_response_def)
  have shape: "format_as_ndjson X r = map_agen ?line r"
    by (rule format_as_ndjson_map)
  have prefix: "\<forall>n. body_text n (format_as_ndjson X r) = concat (map ?line (chunks n r))"
    by (simp add: body_text_def chunks_format_as_ndjson)
  have whole: "\<forall>events. r = agen_of_list events \<longrightarrow>
      format_as_ndjson X r = agen_of_list (map ?line events)
      \<and> body_text (length events) (format_as_ndjson X r) = concat (map ?line events)"
    by (simp add: body_text_def chunks_format_as_ndjson chunks_agen_of_list
        format_as_ndjson_of_list [symmetric])
  from response shape prefix whole show ?thesis
    by (intro conjI)
qed

theorem chat_stream_is_ndjson_of_events_witness:
  \<open>is_json (example_request (example_payload True))
   \<and> fst (chat (example_ext (Inr (JObj [])) (Inr (Sequence (agen_of_list example_events)))
               (Inl (Failure [])))
           example_config (example_request (example_payload True))) =
       Inr \<lparr>status = 200,
            body = StreamBody
              (Yield (''{"delta": "he"}'' @ [CHR 0x0A])
                (Yield (''{"delta": "llo"}'' @ [CHR 0x0A]) Exhausted)),
            timeout = NoTimeout\<rparr>
   \<and> body_text 2 (format_as_ndjson
         (example_ext (Inr (JObj [])) (Inr (Sequence (agen_of_list example_events)))
            (Inl (Failure [])))
         (agen_of_list example_events)) =
       ''{"delta": "he"}'' @ [CHR 0x0A] @ ''{"delta": "llo"}'' @ [CHR 0x0A]\<close>
proof -
  let ?X = "example_ext (Inr (JObj [])) (Inr (Sequence (agen_of_list example_events)))
              (Inl (Failure []))"
  let ?req = "example_request (example_payload True)"
  let ?d = "[(''messages'', example_messages), (''stream'', JBool True)]"
  have h1: "is_json ?req"
    by (simp add: example_request_simps)
  have h2: "get_json ?req = Inr (JObj ?d)"
    by (simp add: example_request_simps example_payload_def)
  have h3: "map_of ?d ''messages'' = Some example_messages"
    by simp
  have h4: "dict_get ?d ''context'' (JObj []) = JObj []"
    by (simp add: dict_get_def)
  have h6: "get_auth_claims_if_enabled ?X helper (headers ?req) = Inr (JObj [])" for helper
    by (simp add: example_ext_simps)
  have h8: "run ?X a example_messages (dict_get ?d ''stream'' (JBool False))
      (JObj (dict_setitem [] ''auth_claims'' (JObj [])))
      (dict_get ?d ''session_state'' JNull) = Inr (Sequence (agen_of_list example_events))" for a
    by (simp add: example_ext_simps)
  have len: "length example_events = 2"
    by (simp add: example_events_def)
  note result = chat_stream_is_ndjson_of_events
    [OF h1 h2 h3 h4 example_config_simps(1) h6 example_config_simps(2) h8]
  have stream: \<open>format_as_ndjson ?X (agen_of_list example_events) =
      Yield (''{"delta": "he"}'' @ [CHR 0x0A])
        (Yield (''{"delta": "llo"}'' @ [CHR 0x0A]) Exhausted)\<close>
    by (simp add: example_events_def format_as_ndjson_simps example_ext_simps)
  have "fst (chat ?X example_config ?req) =
      Inr \<lparr>status = 200, body = StreamBody (format_as_ndjson ?X (agen_of_list example_events)),
           timeout = NoTimeout\<rparr>"
    using result by (rule conjunct1)
  moreover have "body_text (length example_events)
      (format_as_ndjson ?X (agen_of_list example_events)) =
      concat (map (\<lambda>event. json_dumps ?X (JObj event) @ [CHR 0x0A]) example_events)"
    using result by blast
  then have \<open>body_text 2 (format_as_ndjson ?X (agen_of_list example_events)) =
      ''{"delta": "he"}'' @ [CHR 0x0A] @ ''{"delta": "llo"}'' @ [CHR 0x0A]\<close>
    unfolding len by (simp add: example_events_def example_ext_simps)
  ultimately show ?thesis
    using h1 stream by simp
qed

text \<open>
  Claim C2. A JSON \<^verbatim>\<open>POST /chat\<close> that passes the steps before the approach and whose
  \<^verbatim>\<open>run\<close> returns a dict is answered with status 200 and that dict, whole, as the one
  JSON document of the body; the handler has called the auth helper once and \<^verbatim>\<open>run\<close>
  once.
\<close>

theorem chat_single_value_returned_whole:
  assumes "is_json req"
    and "get_json req = Inr (JObj d)"
    and "map_of d ''messages'' = Some messages"
    and "dict_get d ''context'' (JObj []) = JObj c"
    and "auth_client cfg = Some helper"
    and "get_auth_claims_if_enabled X helper (headers req) = Inr claims"
    and "chat_approach cfg = Some a"
    and "run X a messages (dict_get d ''stream'' (JBool False))
           (JObj (dict_setitem c ''auth_claims'' claims))
           (dict_get d ''session_state'' JNull) = Inr (Single result)"
  shows "chat X cfg req =
           (Inr \<lparr>status = 200, body = JsonBody (JObj result), timeout = DefaultTimeout\<rparr>,
            [CallAuthClaims helper (headers req),
             CallRun a messages (dict_get d ''stream'' (JBool False))
               (JObj (dict_setitem c ''auth_claims'' claims))
               (dict_get d ''session_state'' JNull)])"
  using assms
  by (simp add: chat_def chat_try_def py_get_def py_getitem_def py_setitem_def
      dict_getitem_def jsonify_def)

theorem chat_single_value_returned_whole_witness:
  "is_json (example_request (example_payload False))
   \<and> fst (chat (example_ext (Inr (JObj [])) (Inr (Single [(''answer'', JStr ''hello'')]))
               (Inl (Failure [])))
           example_config (example_request (example_payload False))) =
       Inr \<lparr>status = 200, body = JsonBody (JObj [(''answer'', JStr ''hello'')]),
            timeout = DefaultTimeout\<rparr>"
proof -
  let ?X = "example_ext (Inr (JObj [])) (Inr (Single [(''answer'', JStr ''hello'')]))
              (Inl (Failure []))"
  let ?req = "example_request (example_payload False)"
  let ?d = "[(''messages'', example_messages), (''stream'', JBool False)]"
  have h1: "is_json ?req"
    by (simp add: example_request_simps)
  have h2: "get_json ?req = Inr (JObj ?d)"
    by (simp add: example_request_simps example_payload_def)
  have h3: "map_of ?d ''messages'' = Some example_messages"
    by simp
  have h4: "dict_get ?d ''context'' (JObj []) = JObj []"
    by (simp add: dict_get_def)
  have h6: "get_auth_claims_if_enabled ?X helper (headers ?req) = Inr (JObj [])" for helper
    by (simp add: example_ext_simps)
  have h8: "run ?X a example_messages (dict_get ?d ''stream'' (JBool False))
      (JObj (dict_setitem [] ''auth_claims'' (JObj [])))
      (dict_get ?d ''session_state'' JNull) = Inr (Single [(''answer'', JStr ''hello'')])" for a
    by (simp add: example_ext_simps)
  show ?thesis
    using h1 chat_single_value_returned_whole
      [OF h1 h2 h3 h4 example_config_simps(1) h6 example_config_simps(2) h8]
    by simp
qed

section \<open>Requests without a JSON content type\<close>

text \<open>
  Claim C4, as the code has it. Line 77 tests \<^verbatim>\<open>request.is_json\<close>, which is the
  content type of the request and not its body. When it is false, the handler of
  \<^verbatim>\<open>POST /chat\<close> returns status 415 with the body \<^verbatim>\<open>{"error": "request must be json"}\<close>,
  and it has called no collaborator: not the auth helper, not the credential, not the
  approach. A request with a JSON content type whose body does not parse passes line 77;
  \<^verbatim>\<open>request.get_json()\<close> raises at line 79 and that exception leaves the handler, again
  with no collaborator called.
\<close>

theorem chat_not_json_415:
  "(\<not> is_json req \<longrightarrow>
      chat X cfg req =
        (Inr \<lparr>status = 415,
              body = JsonBody (JObj [(''error'', JStr ''request must be json'')]),
              timeout = DefaultTimeout\<rparr>, []))
   \<and> (is_json req \<and> get_json req = Inl e \<longrightarrow> chat X cfg req = (Inl e, []))"
  by (simp add: chat_def jsonify_def with_status_def)

theorem chat_not_json_415_witness:
  "\<not> is_json \<lparr>is_json = False, get_json = Inr JNull, headers = []\<rparr>
   \<and> chat (example_ext (Inr (JObj [])) (Inr (Single [])) (Inl (Failure [])))
        example_config \<lparr>is_json = False, get_json = Inr JNull, headers = []\<rparr> =
       (Inr \<lparr>status = 415,
             body = JsonBody (JObj [(''error'', JStr ''request must be json'')]),
             timeout = DefaultTimeout\<rparr>, [])
   \<and> is_json \<lparr>is_json = True, get_json = Inl (Failure ''400 Bad Request''), headers = []\<rparr>
   \<and> chat (example_ext (Inr (JObj [])) (Inr (Single [])) (Inl (Failure [])))
        example_config
        \<lparr>is_json = True, get_json = Inl (Failure ''400 Bad Request''), headers = []\<rparr> =
       (Inl (Failure ''400 Bad Request''), [])"
proof -
  let ?X = "example_ext (Inr (JObj [])) (Inr (Single [])) (Inl (Failure []))"
  let ?plain = "\<lparr>is_json = False, get_json = Inr JNull, headers = []\<rparr>"
  let ?broken = "\<lparr>is_json = True, get_json = Inl (Failure ''400 Bad Request''), headers = []\<rparr>"
  have h1: "\<not> is_json ?plain"
    by simp
  have h2: "is_json ?broken \<and> get_json ?broken = Inl (Failure ''400 Bad Request'')"
    by simp
  have "chat ?X example_config ?plain =
      (Inr \<lparr>status = 415,
            body = JsonBody (JObj [(''error'', JStr ''request must be json'')]),
            timeout = DefaultTimeout\<rparr>, [])"
    using h1 chat_not_json_415 [of ?plain ?X example_config] by blast
  moreover have "chat ?X example_config ?broken = (Inl (Failure ''400 Bad Request''), [])"
    using h2 chat_not_json_415 [of ?broken ?X example_config "Failure ''400 Bad Request''"]
    by blast
  ultimately show ?thesis
    using h1 h2 by simp
qed

text \<open>
  The claim as the specification words it fails for a body that is not JSON and is
  sent as \<^verbatim>\<open>application/json\<close>: the handler returns no 415, the exception of
  \<^verbatim>\<open>request.get_json()\<close> leaves it.
\<close>

theorem chat_unparsable_json_counterexample:
  "chat (example_ext (Inr (JObj [])) (Inr (Single [])) (Inl (Failure [])))
     example_config
     \<lparr>is_json = True, get_json = Inl (Failure ''400 Bad Request''),
      headers = [(''Content-Type'', ''application/json'')]\<rparr> =
     (Inl (Failure ''400 Bad Request''), [])"
  by (simp add: chat_def)

section \<open>Failures of a JSON request\<close>

text \<open>
  Claim C5, as the code has it. The handler checks nothing of a JSON body but
  \<^verbatim>\<open>is_json\<close>: no JSON request is answered with status 415. For a JSON object without
  \<^verbatim>\<open>messages\<close> (the context absent or an object, the auth helper and the approach
  configured, the auth helper returning) the handler calls the auth helper, then
  \<^verbatim>\<open>request_json["messages"]\<close> raises \<^verbatim>\<open>KeyError\<close> inside the \<^verbatim>\<open>try\<close>, which is logged
  and answered with status 500 and the body \<^verbatim>\<open>{"error": "'messages'"}\<close>; the approach is
  not called.
\<close>

theorem chat_json_without_messages_500:
  assumes "is_json req"
  shows "(\<forall>resp. fst (chat X cfg req) = Inr resp \<longrightarrow> status resp \<noteq> 415)
         \<and> (get_json req = Inr (JObj d) \<and> map_of d ''messages'' = None
              \<and> dict_get d ''context'' (JObj []) = JObj c
              \<and> auth_client cfg = Some helper
              \<and> get_auth_claims_if_enabled X helper (headers req) = Inr claims
              \<and> chat_approach cfg = Some a
            \<longrightarrow> chat X cfg req =
                  (Inr \<lparr>status = 500,
                        body = JsonBody (JObj [(''error'', JStr (quoted ''messages''))]),
                        timeout = DefaultTimeout\<rparr>,
                   [CallAuthClaims helper (headers req),
                    LogException ''Exception in /chat'' (KeyError ''messages'')]))"
proof -
  have "status resp \<noteq> 415" if "fst (chat X cfg req) = Inr resp" for resp
    using chat_json_status [OF assms that] by auto
  moreover have "chat X cfg req =
      (Inr \<lparr>status = 500,
            body = JsonBody (JObj [(''error'', JStr (quoted ''messages''))]),
            timeout = DefaultTimeout\<rparr>,
       [CallAuthClaims helper (headers req),
        LogException ''Exception in /chat'' (KeyError ''messages'')])"
    if "get_json req = Inr (JObj d)" "map_of d ''messages'' = None"
      "dict_get d ''context'' (JObj []) = JObj c" "auth_client cfg = Some helper"
      "get_auth_claims_if_enabled X helper (headers req) = Inr claims"
      "chat_approach cfg = Some a"
    using assms that
    by (simp add: chat_def chat_try_def py_get_def py_getitem_def py_setitem_def
        dict_getitem_def jsonify_def with_status_def)
  ultimately show ?thesis by blast
qed

theorem chat_json_without_messages_500_witness:
  "is_json (example_request (JObj [(''context'', JObj [(''overrides'', JNull)])]))
   \<and> chat (example_ext (Inr (JObj [])) (Inr (Single [])) (Inl (Failure [])))
        example_config (example_request (JObj [(''context'', JObj [(''overrides'', JNull)])])) =
       (Inr \<lparr>status = 500,
             body = JsonBody (JObj [(''error'', JStr (quoted ''messages''))]),
             timeout = DefaultTimeout\<rparr>,
        [CallAuthClaims example_helper example_headers,
         LogException ''Exception in /chat'' (KeyError ''messages'')])"
proof -
  let ?X = "example_ext (Inr (JObj [])) (Inr (Single [])) (Inl (Failure []))"
  let ?d = "[(''context'', JObj [(''overrides'', JNull)])]"
  let ?req = "example_request (JObj ?d)"
  have h1: "is_json ?req"
    by (simp add: example_request_simps)
  have h2: "get_json ?req = Inr (JObj ?d) \<and> map_of ?d ''messages'' = None
      \<and> dict_get ?d ''context'' (JObj []) = JObj [(''overrides'', JNull)]
      \<and> auth_client example_config = Some example_helper
      \<and> get_auth_claims_if_enabled ?X example_helper (headers ?req) = Inr (JObj [])
      \<and> chat_approach example_config = Some example_approach"
    by (simp add: example_request_simps example_config_simps example_ext_simps dict_get_def)
  show ?thesis
    using h1 h2
      chat_json_without_messages_500 [OF h1, of ?X example_config ?d
        "[(''overrides'', JNull)]" example_helper "JObj []" example_approach]
    by (simp add: example_request_simps)
qed

text \<open>
  The claim as the specification words it fails on the empty JSON object: the answer
  has status 500, not 415, and the auth helper has been called.
\<close>

theorem chat_json_without_messages_counterexample:
  "chat (example_ext (Inr (JObj [])) (Inr (Single [])) (Inl (Failure [])))
     example_config (example_request (JObj [])) =
     (Inr \<lparr>status = 500,
           body = JsonBody (JObj [(''error'', JStr (quoted ''messages''))]),
           timeout = DefaultTimeout\<rparr>,
      [CallAuthClaims example_helper example_headers,
       LogException ''Exception in /chat'' (KeyError ''messages'')])"
  by (simp add: chat_def chat_try_def py_get_def py_getitem_def py_setitem_def
      dict_get_def dict_getitem_def jsonify_def with_status_def
      example_request_simps example_config_simps example_ext_simps)

text \<open>
  Claim C6, as the code has it. When \<^verbatim>\<open>run\<close> raises \<open>e\<close> on a JSON request that
  passed the steps before it, the handler catches \<open>e\<close>, logs it and answers with status
  500 and the body \<^verbatim>\<open>{"error": str(e)}\<close>, where \<^verbatim>\<open>str(e)\<close> is whatever text the
  exception carries, the empty string included; \<^verbatim>\<open>run\<close> has been called once.
\<close>

theorem chat_run_exception_500:
  assumes "is_json req"
    and "get_json req = Inr (JObj d)"
    and "map_of d ''messages'' = Some messages"
    and "dict_get d ''context'' (JObj []) = JObj c"
    and "auth_client cfg = Some helper"
    and "get_auth_claims_if_enabled X helper (headers req) = Inr claims"
    and "chat_approach cfg = Some a"
    and "run X a messages (dict_get d ''stream'' (JBool False))
           (JObj (dict_setitem c ''auth_claims'' claims))
           (dict_get d ''session_state'' JNull) = Inl e"
  shows "chat X cfg req =
           (Inr \<lparr>status = 500, body = JsonBody (JObj [(''error'', JStr (str_exn e))]),
                 timeout = DefaultTimeout\<rparr>,
            [CallAuthClaims helper (headers req),
             CallRun a messages (dict_get d ''stream'' (JBool False))
               (JObj (dict_setitem c ''auth_claims'' claims))
               (dict_get d ''session_state'' JNull),
             LogException ''Exception in /chat'' e])"
  using assms
  by (simp add: chat_def chat_try_def py_get_def py_getitem_def py_setitem_def
      dict_getitem_def jsonify_def with_status_def)

theorem chat_run_exception_500_witness:
  "is_json (example_request (example_payload False))
   \<and> chat (example_ext (Inr (JObj [])) (Inl (Failure ''quota exceeded'')) (Inl (Failure [])))
        example_config (example_request (example_payload False)) =
       (Inr \<lparr>status = 500, body = JsonBody (JObj [(''error'', JStr ''quota exceeded'')]),
             timeout = DefaultTimeout\<rparr>,
        [CallAuthClaims example_helper example_headers,
         CallRun example_approach example_messages (JBool False)
           (JObj [(''auth_claims'', JObj [])]) JNull,
         LogException ''Exception in /chat'' (Failure ''quota exceeded'')])"
proof -
  let ?X = "example_ext (Inr (JObj [])) (Inl (Failure ''quota exceeded'')) (Inl (Failure []))"
  let ?req = "example_request (example_payload False)"
  let ?d = "[(''messages'', example_messages), (''stream'', JBool False)]"
  have h1: "is_json ?req"
    by (simp add: example_request_simps)
  have h2: "get_json ?req = Inr (JObj ?d)"
    by (simp add: example_request_simps example_payload_def)
  have h3: "map_of ?d ''messages'' = Some example_messages"
    by simp
  have h4: "dict_get ?d ''context'' (JObj []) = JObj []"
    by (simp add: dict_get_def)
  have h6: "get_auth_claims_if_enabled ?X example_helper (headers ?req) = Inr (JObj [])"
    by (simp add: example_ext_simps)
  have h8: "run ?X example_approach example_messages (dict_get ?d ''stream'' (JBool False))
      (JObj (dict_setitem [] ''auth_claims'' (JObj [])))
      (dict_get ?d ''session_state'' JNull) = Inl (Failure ''quota exceeded'')"
    by (simp add: example_ext_simps)
  show ?thesis
    using h1 chat_run_exception_500
      [OF h1 h2 h3 h4 example_config_simps(1) h6 example_config_simps(2) h8]
    by (simp add: example_request_simps dict_get_def)
qed

text \<open>
  The claim as the specification words it fails for an exception without a message
  (\<^verbatim>\<open>raise Exception()\<close>, a bare \<^verbatim>\<open>asyncio.TimeoutError()\<close>): the text of the error is
  the empty string.
\<close>

theorem chat_run_exception_counterexample:
  "chat (example_ext (Inr (JObj [])) (Inl (Failure [])) (Inl (Failure [])))
     example_config (example_request (example_payload False)) =
     (Inr \<lparr>status = 500, body = JsonBody (JObj [(''error'', JStr [])]),
           timeout = DefaultTimeout\<rparr>,
      [CallAuthClaims example_helper example_headers,
       CallRun example_approach example_messages (JBool False)
         (JObj [(''auth_claims'', JObj [])]) JNull,
       LogException ''Exception in /chat'' (Failure [])])"
  by (simp add: chat_def chat_try_def py_get_def py_getitem_def py_setitem_def
      dict_get_def dict_getitem_def jsonify_def with_status_def example_payload_def
      example_request_simps example_config_simps example_ext_simps)

text \<open>
  Claim C7, as the code has it. On a JSON request whose body is an object (the context
  absent or an object, the auth helper configured): an exception raised inside the
  \<^verbatim>\<open>try\<close> block (looking up the approach, reading \<^verbatim>\<open>messages\<close>, the call of \<^verbatim>\<open>run\<close>)
  is caught, logged and answered with status 500 and \<^verbatim>\<open>{"error": str(e)}\<close>; an
  exception raised by the auth helper, which the handler awaits before the \<^verbatim>\<open>try\<close>,
  is not caught and leaves the handler.
\<close>

theorem chat_catches_inside_try_only:
  assumes "is_json req"
    and "get_json req = Inr (JObj d)"
    and "dict_get d ''context'' (JObj []) = JObj c"
    and "auth_client cfg = Some helper"
  shows "(\<forall>e. get_auth_claims_if_enabled X helper (headers req) = Inl e \<longrightarrow>
            chat X cfg req = (Inl e, [CallAuthClaims helper (headers req)]))
         \<and> (\<forall>claims e calls.
              get_auth_claims_if_enabled X helper (headers req) = Inr claims \<longrightarrow>
              chat_try X cfg (JObj d) (JObj (dict_setitem c ''auth_claims'' claims))
                = (Inl e, calls) \<longrightarrow>
              chat X cfg req =
                (Inr \<lparr>status = 500, body = JsonBody (JObj [(''error'', JStr (str_exn e))]),
                      timeout = DefaultTimeout\<rparr>,
                 CallAuthClaims helper (headers req) # calls
                   @ [LogException ''Exception in /chat'' e]))"
  using assms
  by (simp add: chat_def py_get_def py_setitem_def jsonify_def with_status_def)

theorem chat_catches_inside_try_only_witness:
  "is_json (example_request (example_payload False))
   \<and> chat (example_ext (Inl (Failure ''invalid token'')) (Inr (Single [])) (Inl (Failure [])))
        example_config (example_request (example_payload False)) =
       (Inl (Failure ''invalid token''), [CallAuthClaims example_helper example_headers])
   \<and> chat (example_ext (Inr (JObj [])) (Inl (KeyError ''answer'')) (Inl (Failure [])))
        example_config (example_request (example_payload False)) =
       (Inr \<lparr>status = 500, body = JsonBody (JObj [(''error'', JStr (quoted ''answer''))]),
             timeout = DefaultTimeout\<rparr>,
        [CallAuthClaims example_helper example_headers,
         CallRun example_approach example_messages (JBool False)
           (JObj [(''auth_claims'', JObj [])]) JNull,
         LogException ''Exception in /chat'' (KeyError ''answer'')])"
proof -
  let ?X1 = "example_ext (Inl (Failure ''invalid token'')) (Inr (Single [])) (Inl (Failure []))"
  let ?X2 = "example_ext (Inr (JObj [])) (Inl (KeyError ''answer'')) (Inl (Failure []))"
  let ?req = "example_request (example_payload False)"
  let ?d = "[(''messages'', example_messages), (''stream'', JBool False)]"
  have h1: "is_json ?req"
    by (simp add: example_request_simps)
  have h2: "get_json ?req = Inr (JObj ?d)"
    by (simp add: example_request_simps example_payload_def)
  have h3: "dict_get ?d ''context'' (JObj []) = JObj []"
    by (simp add: dict_get_def)
  have a1: "get_auth_claims_if_enabled ?X1 example_helper (headers ?req)
      = Inl (Failure ''invalid token'')"
    by (simp add: example_ext_simps)
  have a2: "get_auth_claims_if_enabled ?X2 example_helper (headers ?req) = Inr (JObj [])"
    by (simp add: example_ext_simps)
  have t2: "chat_try ?X2 example_config (JObj ?d)
      (JObj (dict_setitem [] ''auth_claims'' (JObj []))) =
      (Inl (KeyError ''answer''),
       [CallRun example_approach example_messages (JBool False)
          (JObj [(''auth_claims'', JObj [])]) JNull])"
    by (simp add: chat_try_def py_get_def py_getitem_def dict_get_def dict_getitem_def
        example_config_simps example_ext_simps)
  have "chat ?X1 example_config ?req =
      (Inl (Failure ''invalid token''), [CallAuthClaims example_helper (headers ?req)])"
    using chat_catches_inside_try_only [OF h1 h2 h3 example_config_simps(1), of ?X1] a1
    by blast
  moreover have "chat ?X2 example_config ?req =
      (Inr \<lparr>status = 500, body = JsonBody (JObj [(''error'', JStr (str_exn (KeyError ''answer'')))]),
            timeout = DefaultTimeout\<rparr>,
       CallAuthClaims example_helper (headers ?req) #
         [CallRun example_approach example_messages (JBool False)
            (JObj [(''auth_claims'', JObj [])]) JNull]
         @ [LogException ''Exception in /chat'' (KeyError ''answer'')])"
    using chat_catches_inside_try_only [OF h1 h2 h3 example_config_simps(1), of ?X2] a2 t2
    by blast
  ultimately show ?thesis
    using h1 by (simp add: example_request_simps)
qed

text \<open>
  The claim as the specification words it fails when the auth helper raises: the
  exception leaves the handler, and no error envelope is returned.
\<close>

theorem chat_auth_exception_counterexample:
  "chat (example_ext (Inl (Failure ''token validation failed'')) (Inr (Single []))
           (Inl (Failure [])))
     example_config (example_request (example_payload True)) =
     (Inl (Failure ''token validation failed''),
      [CallAuthClaims example_helper example_headers])"
  by (simp add: chat_def py_get_def dict_get_def example_payload_def
      example_request_simps example_config_simps example_ext_simps)

section \<open>The token gate, startup and the routes\<close>

lemma lower_examples:
  "lower ''false'' = ''false''"
  "lower ''FALSE'' = ''false''"
  "lower ''true'' \<noteq> ''false''"
  "lower [] \<noteq> ''false''"
  by code_simp+

text \<open>
  Claim C3, as the code has it. In the AD mode, with a token stored and the credential
  configured, the gate calls the credential exactly when the stored token's
  \<^verbatim>\<open>expires_on\<close> is strictly less than \<open>now + 60\<close>, where \<open>now\<close> is the gate's reading of
  the clock. When the gate returns, the token in effect is either the stored one, with
  at least 60 seconds left at \<open>now\<close> and nothing changed, or the token the credential
  has just returned, which the gate stores and copies to \<^verbatim>\<open>openai.api_key\<close> without a
  look at its expiry. In every other mode the gate is a no-op: it reads no token and
  calls nothing.
\<close>

theorem ensure_openai_token_refresh_policy:
  "(api_type s = ''azure_ad'' \<and> openai_token (app_config s) = Some stored
      \<and> azure_credential (app_config s) = Some cred \<longrightarrow>
      snd (snd (ensure_openai_token X now s)) =
        (if real_of_int (expires_on stored) < now + 60
         then [CallGetToken cred TOKEN_SCOPE] else [])
      \<and> (\<forall>s' calls. ensure_openai_token X now s = (Inr (), s', calls) \<longrightarrow>
            (\<exists>t. openai_token (app_config s') = Some t
               \<and> (now + 60 \<le> real_of_int (expires_on t) \<and> t = stored \<and> s' = s \<and> calls = []
                  \<or> real_of_int (expires_on stored) < now + 60
                    \<and> get_token X cred TOKEN_SCOPE = Inr t
                    \<and> api_key s' = Some (token t)
                    \<and> calls = [CallGetToken cred TOKEN_SCOPE]))))
   \<and> (api_type s \<noteq> ''azure_ad'' \<longrightarrow> ensure_openai_token X now s = (Inr (), s, []))"
  by (auto simp add: ensure_openai_token_def split: sum.splits if_splits)

theorem ensure_openai_token_refresh_policy_witness:
  "api_type (example_app (Some \<lparr>token = ''old'', expires_on = 1030\<rparr>)) = ''azure_ad''
   \<and> snd (snd (ensure_openai_token
        (example_ext (Inr (JObj [])) (Inr (Single []))
           (Inr \<lparr>token = ''new'', expires_on = 4600\<rparr>))
        1000 (example_app (Some \<lparr>token = ''old'', expires_on = 1030\<rparr>)))) =
       [CallGetToken example_credential TOKEN_SCOPE]
   \<and> snd (snd (ensure_openai_token
        (example_ext (Inr (JObj [])) (Inr (Single []))
           (Inr \<lparr>token = ''new'', expires_on = 4600\<rparr>))
        1000 (example_app (Some \<lparr>token = ''old'', expires_on = 1060\<rparr>)))) = []
   \<and> ensure_openai_token
        (example_ext (Inr (JObj [])) (Inr (Single []))
           (Inr \<lparr>token = ''new'', expires_on = 4600\<rparr>))
        1000 ((example_app None)\<lparr>api_type := ''open_ai''\<rparr>) =
       (Inr (), (example_app None)\<lparr>api_type := ''open_ai''\<rparr>, [])"
proof -
  let ?X = "example_ext (Inr (JObj [])) (Inr (Single []))
              (Inr \<lparr>token = ''new'', expires_on = 4600\<rparr>)"
  let ?s1 = "example_app (Some \<lparr>token = ''old'', expires_on = 1030\<rparr>)"
  let ?s2 = "example_app (Some \<lparr>token = ''old'', expires_on = 1060\<rparr>)"
  let ?s3 = "(example_app None)\<lparr>api_type := ''open_ai''\<rparr>"
  have h1: "api_type ?s1 = ''azure_ad''
      \<and> openai_token (app_config ?s1) = Some \<lparr>token = ''old'', expires_on = 1030\<rparr>
      \<and> azure_credential (app_config ?s1) = Some example_credential"
    by (simp add: example_app_def example_config_simps)
  have h2: "api_type ?s2 = ''azure_ad''
      \<and> openai_token (app_config ?s2) = Some \<lparr>token = ''old'', expires_on = 1060\<rparr>
      \<and> azure_credential (app_config ?s2) = Some example_credential"
    by (simp add: example_app_def example_config_simps)
  have h3: "api_type ?s3 \<noteq> ''azure_ad''"
    by (simp add: example_app_def)
  have "snd (snd (ensure_openai_token ?X 1000 ?s1)) =
      [CallGetToken example_credential TOKEN_SCOPE]"
    using h1 ensure_openai_token_refresh_policy
      [of ?s1 "\<lparr>token = ''old'', expires_on = 1030\<rparr>" example_credential ?X 1000]
    by simp
  moreover have "snd (snd (ensure_openai_token ?X 1000 ?s2)) = []"
    using h2 ensure_openai_token_refresh_policy
      [of ?s2 "\<lparr>token = ''old'', expires_on = 1060\<rparr>" example_credential ?X 1000]
    by simp
  moreover have "ensure_openai_token ?X 1000 ?s3 = (Inr (), ?s3, [])"
    using h3 ensure_openai_token_refresh_policy [of ?s3 _ _ ?X 1000]
    by blast
  ultimately show ?thesis
    using h1 by simp
qed

text \<open>
  The claim as the specification words it fails when the credential returns a token
  that is itself about to expire: the gate stores it and returns, and the token in
  effect has 10 seconds left at \<open>now\<close>.
\<close>

theorem ensure_openai_token_short_lived_counterexample:
  "ensure_openai_token
     (example_ext (Inr (JObj [])) (Inr (Single []))
        (Inr \<lparr>token = ''new'', expires_on = 1010\<rparr>))
     1000 (example_app (Some \<lparr>token = ''old'', expires_on = 1000\<rparr>)) =
     (Inr (),
      \<lparr>api_type = ''azure_ad'', api_key = Some ''new'',
       app_config = example_config\<lparr>openai_token := Some \<lparr>token = ''new'', expires_on = 1010\<rparr>\<rparr>\<rparr>,
      [CallGetToken example_credential TOKEN_SCOPE])
   \<and> real_of_int (expires_on \<lparr>token = ''new'', expires_on = 1010\<rparr>) - 1000 < 60"
  by (simp add: ensure_openai_token_def example_app_def example_config_simps
      example_ext_simps)

text \<open>
  Claim C8 fails on the code. After startup nothing is stored under
  \<^verbatim>\<open>CONFIG_OPENAI_TOKEN\<close>, and in the AD mode the gate's lookup at line 113 then raises
  \<^verbatim>\<open>KeyError\<close>: the gate fetches no token and changes nothing, whatever the environment
  and the clock.
\<close>

theorem ensure_openai_token_absent_token_raises:
  "ensure_openai_token X now
     \<lparr>api_type = ''azure_ad'', api_key = key, app_config = setup_clients env empty_config\<rparr> =
     (Inl (KeyError ''openai_token''),
      \<lparr>api_type = ''azure_ad'', api_key = key, app_config = setup_clients env empty_config\<rparr>,
      [])"
  by (simp add: ensure_openai_token_def setup_clients_def empty_config_def
      CONFIG_OPENAI_TOKEN_def)

text \<open>
  Claim C9. The auth helper that \<^verbatim>\<open>setup_clients\<close> stores has \<^verbatim>\<open>use_authentication\<close>
  true exactly when \<^verbatim>\<open>AZURE_USE_AUTHENTICATION\<close> is set and its lowercased value is
  \<^verbatim>\<open>false\<close>: so for \<^verbatim>\<open>false\<close> and \<^verbatim>\<open>FALSE\<close> authentication is on, and for \<^verbatim>\<open>true\<close> and
  for an unset variable it is off.
\<close>

theorem setup_clients_use_authentication:
  "(\<exists>helper. auth_client (setup_clients env cfg) = Some helper
      \<and> use_authentication helper =
          (\<exists>v. env ''AZURE_USE_AUTHENTICATION'' = Some v \<and> lower v = ''false''))
   \<and> map_option use_authentication
        (auth_client (setup_clients (env(''AZURE_USE_AUTHENTICATION'' \<mapsto> ''false'')) cfg))
       = Some True
   \<and> map_option use_authentication
        (auth_client (setup_clients (env(''AZURE_USE_AUTHENTICATION'' \<mapsto> ''FALSE'')) cfg))
       = Some True
   \<and> map_option use_authentication
        (auth_client (setup_clients (env(''AZURE_USE_AUTHENTICATION'' \<mapsto> ''true'')) cfg))
       = Some False
   \<and> map_option use_authentication
        (auth_client (setup_clients (env(''AZURE_USE_AUTHENTICATION'' := None)) cfg))
       = Some False"
proof -
  have "use_authentication helper =
      (\<exists>v. env ''AZURE_USE_AUTHENTICATION'' = Some v \<and> lower v = ''false'')"
    if "auth_client (setup_clients env cfg) = Some helper" for helper
    using that lower_examples(4)
    by (auto simp add: setup_clients_def AZURE_USE_AUTHENTICATION_def getenv_default_def
        split: option.splits)
  moreover have "\<exists>helper. auth_client (setup_clients env cfg) = Some helper"
    by (simp add: setup_clients_def)
  ultimately show ?thesis
    using lower_examples
    by (auto simp add: setup_clients_def AZURE_USE_AUTHENTICATION_def getenv_default_def)
qed

text \<open>
  Claim C10 fails on the code, by the defect of claim C8. The module registers the gate
  as the one before-request function of the blueprint \<^verbatim>\<open>bp\<close>, on which all seven
  routes are registered, so the framework runs it ahead of the view function of every
  one of them. But in the AD mode, in the state that startup leaves, that function
  raises \<^verbatim>\<open>KeyError\<close> at its lookup, whatever the route, the environment and the clock:
  it calls no credential, stores no token and leaves \<^verbatim>\<open>openai.api_key\<close> as it was. It
  leaves the whole state as it was, so the same holds for every later request: no
  request triggers a refresh.
\<close>

theorem bp_gate_on_every_route_raises_after_startup:
  "before_request_funcs bp = [ensure_openai_token]
   \<and> map (\<lambda>rule. snd (snd rule)) (url_rules bp) =
       [''index'', ''get_basepath'', ''redirect'', ''favicon'', ''assets'', ''chat'',
        ''auth_setup'']
   \<and> map (\<lambda>hook. hook X now
              \<lparr>api_type = ''azure_ad'', api_key = key,
               app_config = setup_clients env empty_config\<rparr>)
        (before_request_funcs bp) =
       [(Inl (KeyError ''openai_token''),
         \<lparr>api_type = ''azure_ad'', api_key = key,
          app_config = setup_clients env empty_config\<rparr>,
         [])]"
  by (simp add: bp_def ensure_openai_token_def setup_clients_def empty_config_def
      CONFIG_OPENAI_TOKEN_def)

end
